theory Spec2Isabelle
  imports Main "HOL-Library.Sublist"
begin

section \<open>JavaScript values handled by the worker\<close>

text \<open>
  The worker of \<^verbatim>\<open>src/index.js\<close> handles values that come out of \<^verbatim>\<open>JSON.parse\<close>,
  out of \<^verbatim>\<open>URLSearchParams.get\<close> and out of the key-value store. A JSON value is a
  \<open>json\<close>; a variable that may also be \<^verbatim>\<open>undefined\<close> is a \<open>json option\<close> with
  \<open>None\<close> for \<^verbatim>\<open>undefined\<close>. Numbers are restricted to integers: the worker only
  tests a number for being zero and turns it into text, and the text of a number is
  left to the platform (\<open>Number_toString\<close> below). An object is the list of its own
  properties, read with \<open>map_of\<close>.
\<close>

datatype json =
    JNull
  | JBool bool
  | JNum int
  | JStr string
  | JArr "json list"
  | JObj "(string \<times> json) list"

text \<open>
  What the worker's code can throw:
  \<^item> reading a property of \<^verbatim>\<open>null\<close> (a TypeError, with the property's name);
  \<^item> converting to a string an object that cannot be converted to a primitive value
    (a TypeError);
  \<^item> \<^verbatim>\<open>new URL(rel, base)\<close> on strings that do not form a URL (a TypeError, with both
    strings);
  \<^item> \<^verbatim>\<open>new Response(body, init)\<close> with a status outside 200 to 599 (a RangeError, with
    the status);
  \<^item> the \<^verbatim>\<open>Request\<close> constructor or the outbound \<^verbatim>\<open>fetch\<close> failing (with the message).
\<close>

datatype js_error =
    NullPropertyAccess string
  | NotPrimitive
  | InvalidURL string string
  | StatusOutOfRange nat
  | FetchFailed string

record response =
  status :: nat
  statusText :: string
  resp_headers :: "(string \<times> string) list"
  resp_body :: string

text \<open>
  A \<^verbatim>\<open>URL\<close> object, with the properties that the worker and the claims read: the
  serialisation \<^verbatim>\<open>href\<close> (which is also \<^verbatim>\<open>toString()\<close>), the \<^verbatim>\<open>protocol\<close> (the scheme
  with its colon), the \<^verbatim>\<open>origin\<close> (scheme, host and port, or \<^verbatim>\<open>null\<close> for a scheme
  without one), the \<^verbatim>\<open>pathname\<close>, the \<^verbatim>\<open>search\<close> (empty, or the query string with its
  question mark) and the decoded pairs of \<^verbatim>\<open>searchParams\<close>.
\<close>

record URL =
  href :: string
  protocol :: string
  origin :: string
  pathname :: string
  search :: string
  searchParams :: "(string \<times> string) list"

text \<open>
  The inbound request, as the worker reads it: \<^verbatim>\<open>request.method\<close> (the field
  \<open>req_method\<close>), the object \<^verbatim>\<open>new URL(request.url)\<close> of line 18, \<^verbatim>\<open>request.headers\<close>,
  and the text of the body, which \<^verbatim>\<open>request.json()\<close> parses (the empty text when
  there is no body).
\<close>

record request =
  req_method :: string
  url :: URL
  headers :: "(string \<times> string) list"
  body :: string

text \<open>The arguments of \<^verbatim>\<open>new Request(targetUrl.toString(), {method, headers, body})\<close>.\<close>

record forward_request =
  fwd_url :: string
  fwd_method :: string
  fwd_headers :: "(string \<times> string) list"
  fwd_body :: "string option"

text \<open>
  The runtime the worker calls into. None of it is code of the repository, so the
  worker is modelled over an arbitrary platform:
  \<^item> \<open>JSON_parse\<close>: \<^verbatim>\<open>JSON.parse\<close> (and the parser behind \<^verbatim>\<open>request.json()\<close>);
    \<open>None\<close> is the SyntaxError;
  \<^item> \<open>JSON_stringify\<close>: \<^verbatim>\<open>JSON.stringify\<close> on a JSON value;
  \<^item> \<open>Number_toString\<close>: the text of a number in a template literal;
  \<^item> \<open>new_URL input base\<close>: \<^verbatim>\<open>new URL(input, base)\<close>, and \<^verbatim>\<open>new URL(input)\<close> when
    \<open>base\<close> is \<open>None\<close>; the result \<open>None\<close> is the TypeError of an invalid URL;
  \<^item> \<open>error_message\<close>: the \<^verbatim>\<open>message\<close> property of a thrown error;
  \<^item> \<open>global_fetch\<close>: the \<^verbatim>\<open>Request\<close> constructor on its arguments and the global
    \<^verbatim>\<open>fetch\<close> on the request, that is the backend and the network; \<open>Inl\<close> is what
    either of them throws.
\<close>

record platform =
  JSON_parse :: "string \<Rightarrow> json option"
  JSON_stringify :: "json \<Rightarrow> string"
  Number_toString :: "int \<Rightarrow> string"
  new_URL :: "string \<Rightarrow> string option \<Rightarrow> URL option"
  error_message :: "js_error \<Rightarrow> string"
  global_fetch :: "forward_request \<Rightarrow> js_error + response"

text \<open>
  The store \<^verbatim>\<open>env.ROUTING_KV\<close>: \<^verbatim>\<open>get(key)\<close> gives a string, or \<^verbatim>\<open>null\<close> (here
  \<open>None\<close>) when the key is absent.
\<close>

type_synonym kv_store = "string \<rightharpoonup> string"

subsection \<open>Truthiness, string conversion, property access\<close>

text \<open>\<^verbatim>\<open>if (v)\<close> and \<^verbatim>\<open>!v\<close> on a value that is \<^verbatim>\<open>undefined\<close> or a JSON value.\<close>

fun truthy :: "json option \<Rightarrow> bool" where
  "truthy None = False"
| "truthy (Some JNull) = False"
| "truthy (Some (JBool b)) = b"
| "truthy (Some (JNum n)) = (n \<noteq> 0)"
| "truthy (Some (JStr s)) = (s \<noteq> [])"
| "truthy (Some (JArr xs)) = True"
| "truthy (Some (JObj ps)) = True"

text \<open>The same test on what the store returns: \<^verbatim>\<open>null\<close> and the empty string are falsy.\<close>

fun str_truthy :: "string option \<Rightarrow> bool" where
  "str_truthy None = False"
| "str_truthy (Some s) = (s \<noteq> [])"

fun join_comma :: "string list \<Rightarrow> string" where
  "join_comma [] = []"
| "join_comma [s] = s"
| "join_comma (s # t # ss) = s @ '','' @ join_comma (t # ss)"

text \<open>The results of a list of conversions, or the first error among them.\<close>

fun all_converted :: "(js_error + string) list \<Rightarrow> js_error + string list" where
  "all_converted [] = Inr []"
| "all_converted (Inl e # rs) = Inl e"
| "all_converted (Inr s # rs) =
     (case all_converted rs of Inl e \<Rightarrow> Inl e | Inr ss \<Rightarrow> Inr (s # ss))"

text \<open>
  The string conversion of template literals, of \<^verbatim>\<open>+\<close> with a string and of the
  argument of \<^verbatim>\<open>JSON.parse\<close>. An array joins the conversions of its elements with
  commas, \<^verbatim>\<open>null\<close> elements giving the empty text. An object is converted by its
  \<^verbatim>\<open>toString\<close> method: the inherited one gives \<^verbatim>\<open>[object Object]\<close>; an own property
  \<^verbatim>\<open>toString\<close> hides it, is not callable (it is a JSON value), and \<^verbatim>\<open>valueOf\<close> gives no
  primitive value, so the conversion throws.
\<close>

fun json_ToString :: "platform \<Rightarrow> json \<Rightarrow> js_error + string" where
  "json_ToString P JNull = Inr ''null''"
| "json_ToString P (JBool b) = Inr (if b then ''true'' else ''false'')"
| "json_ToString P (JNum n) = Inr (Number_toString P n)"
| "json_ToString P (JStr s) = Inr s"
| "json_ToString P (JArr xs) =
     (case all_converted (map (\<lambda>x. if x = JNull then Inr [] else json_ToString P x) xs) of
        Inl e \<Rightarrow> Inl e
      | Inr ss \<Rightarrow> Inr (join_comma ss))"
| "json_ToString P (JObj ps) =
     (if map_of ps ''toString'' = None then Inr ''[object Object]'' else Inl NotPrimitive)"

fun ToString :: "platform \<Rightarrow> json option \<Rightarrow> js_error + string" where
  "ToString P None = Inr ''undefined''"
| "ToString P (Some v) = json_ToString P v"

text \<open>
  \<^verbatim>\<open>v.name\<close> for a JSON value \<open>v\<close> and one of the names the worker reads (\<^verbatim>\<open>data\<close>,
  \<^verbatim>\<open>customerId\<close>, \<^verbatim>\<open>warehouseId\<close>; none is a built-in property of a string, an
  array, a number or a boolean): \<^verbatim>\<open>null\<close> throws, an object gives its property or
  \<^verbatim>\<open>undefined\<close>, every other value gives \<^verbatim>\<open>undefined\<close>.
\<close>

fun get_prop :: "json \<Rightarrow> string \<Rightarrow> js_error + json option" where
  "get_prop JNull name = Inl (NullPropertyAccess name)"
| "get_prop (JObj ps) name = Inr (map_of ps name)"
| "get_prop (JBool b) name = Inr None"
| "get_prop (JNum n) name = Inr None"
| "get_prop (JStr s) name = Inr None"
| "get_prop (JArr xs) name = Inr None"

text \<open>\<^verbatim>\<open>url.searchParams.get(name)\<close>: the first value of the name, or \<^verbatim>\<open>null\<close>.\<close>

definition searchParams_get :: "(string \<times> string) list \<Rightarrow> string \<Rightarrow> json option" where
  "searchParams_get params name =
     (case map_of params name of None \<Rightarrow> Some JNull | Some v \<Rightarrow> Some (JStr v))"

section \<open>The worker\<close>

text \<open>
  A block of the handler either throws, or returns a response to the caller, or goes on
  with a value.
\<close>

datatype 'a step = Throw js_error | Return response | Next 'a

text \<open>
  Every failure the worker classifies is written
  \<^verbatim>\<open>new Response(JSON.stringify({ error: msg }), { status: code, headers: { 'Content-Type': 'application/json' } })\<close>.
\<close>

definition error_response :: "platform \<Rightarrow> nat \<Rightarrow> string \<Rightarrow> response" where
  "error_response P code msg =
     \<lparr> status = code, statusText = [],
       resp_headers = [(''Content-Type'', ''application/json'')],
       resp_body = JSON_stringify P (JObj [(''error'', JStr msg)]) \<rparr>"

text \<open>The response of the outermost \<^verbatim>\<open>catch\<close> (lines 138 to 149).\<close>

definition internal_error_response :: "platform \<Rightarrow> js_error \<Rightarrow> response" where
  "internal_error_response P e =
     \<lparr> status = 500, statusText = [],
       resp_headers = [(''Content-Type'', ''application/json'')],
       resp_body = JSON_stringify P
         (JObj [(''error'', JStr ''Internal server error''),
                (''message'', JStr (error_message P e))]) \<rparr>"

text \<open>
  The inner \<^verbatim>\<open>try\<close> of lines 44 to 53: \<^verbatim>\<open>JSON.parse(requestBody.data)\<close>, which first
  converts its argument to a string, then the two property reads. \<open>None\<close> is its
  \<^verbatim>\<open>catch\<close>, which catches the SyntaxError of the parser as well as the TypeError of
  the conversion and of reading a property of \<^verbatim>\<open>null\<close>.
\<close>

definition parse_data :: "platform \<Rightarrow> json option \<Rightarrow> (json option \<times> json option) option" where
  "parse_data P d =
     (case ToString P d of
        Inl e \<Rightarrow> None
      | Inr text \<Rightarrow>
          (case JSON_parse P text of
             None \<Rightarrow> None
           | Some parsedData \<Rightarrow>
               (case get_prop parsedData ''customerId'' of
                  Inl e \<Rightarrow> None
                | Inr customerId \<Rightarrow>
                    (case get_prop parsedData ''warehouseId'' of
                       Inl e \<Rightarrow> None
                     | Inr warehouseId \<Rightarrow> Some (customerId, warehouseId)))))"

text \<open>
  Lines 21 to 65: \<open>customerId\<close>, \<open>warehouseId\<close> and \<open>requestBody\<close> by request method.
\<close>

definition extract_params ::
  "platform \<Rightarrow> request \<Rightarrow> (json option \<times> json option \<times> json option) step" where
  "extract_params P req =
     (if req_method req = ''POST'' then
        (case JSON_parse P (body req) of
           None \<Rightarrow> Return (error_response P 400 ''Invalid or missing JSON body in request'')
         | Some requestBody \<Rightarrow>
             (case get_prop requestBody ''data'' of
                Inl e \<Rightarrow> Throw e
              | Inr d \<Rightarrow>
                  if \<not> truthy d
                  then Return (error_response P 400 ''Missing data field in request body'')
                  else
                    (case parse_data P d of
                       None \<Rightarrow> Return (error_response P 400 ''Invalid JSON in data field'')
                     | Some (customerId, warehouseId) \<Rightarrow>
                         Next (customerId, warehouseId, Some requestBody))))
      else if req_method req = ''GET'' then
        Next (searchParams_get (searchParams (url req)) ''customerId'',
              searchParams_get (searchParams (url req)) ''warehouseId'',
              None)
      else Return (error_response P 405 (''Method '' @ req_method req @ '' not supported'')))"

text \<open>
  Step 1, lines 79 to 88: the warehouse-specific key when \<open>warehouseId\<close> is truthy, then
  the customer-level key when nothing truthy has been found. Each key is a template
  literal, which converts \<open>customerId\<close> and then \<open>warehouseId\<close> to strings before the store
  is read; a conversion that throws ends the block.
\<close>

definition lookup_target ::
  "platform \<Rightarrow> kv_store \<Rightarrow> json option \<Rightarrow> json option \<Rightarrow> js_error + string option" where
  "lookup_target P kv customerId warehouseId =
     (case (if truthy warehouseId
            then (case ToString P customerId of
                    Inl e \<Rightarrow> Inl e
                  | Inr c \<Rightarrow>
                      (case ToString P warehouseId of
                         Inl e \<Rightarrow> Inl e
                       | Inr w \<Rightarrow> Inr (kv (''route:'' @ c @ '':'' @ w))))
            else Inr None) of
        Inl e \<Rightarrow> Inl e
      | Inr targetKey \<Rightarrow>
          if \<not> str_truthy targetKey
          then (case ToString P customerId of
                  Inl e \<Rightarrow> Inl e
                | Inr c \<Rightarrow> Inr (kv (''route:'' @ c)))
          else Inr targetKey)"

text \<open>Step 3, lines 112 to 116: \<^verbatim>\<open>pathMapping || sourcePath\<close>.\<close>

definition destination_path :: "kv_store \<Rightarrow> string \<Rightarrow> string \<Rightarrow> string" where
  "destination_path kv targetKey sourcePath =
     (case kv (''path:'' @ targetKey @ '':'' @ sourcePath) of
        None \<Rightarrow> sourcePath
      | Some pathMapping \<Rightarrow> if pathMapping = [] then sourcePath else pathMapping)"

text \<open>The message of line 93, with its two string conversions.\<close>

definition no_routing_message ::
  "platform \<Rightarrow> json option \<Rightarrow> json option \<Rightarrow> js_error + string" where
  "no_routing_message P customerId warehouseId =
     (case ToString P customerId of
        Inl e \<Rightarrow> Inl e
      | Inr c \<Rightarrow>
          if truthy warehouseId
          then (case ToString P warehouseId of
                  Inl e \<Rightarrow> Inl e
                | Inr w \<Rightarrow>
                    Inr (''No routing found for customerId: '' @ c @ '', warehouseId: '' @ w))
          else Inr (''No routing found for customerId: '' @ c))"

text \<open>
  Lines 99 to 126, for a truthy \<open>targetKey\<close>: the endpoint, the destination path, the
  target URL and the arguments of the request to forward.
\<close>

definition forward_to ::
  "platform \<Rightarrow> kv_store \<Rightarrow> request \<Rightarrow> json option \<Rightarrow> string \<Rightarrow> forward_request step" where
  "forward_to P kv req requestBody targetKey =
     (let notFound = Return (error_response P 404 (''No endpoint found for target: '' @ targetKey)) in
      case kv (''endpoint:'' @ targetKey) of
        None \<Rightarrow> notFound
      | Some targetEndpoint \<Rightarrow>
          if targetEndpoint = [] then notFound
          else
            (let sourcePath = pathname (url req);
                 destinationPath = destination_path kv targetKey sourcePath
             in case new_URL P (destinationPath @ search (url req)) (Some targetEndpoint) of
                  None \<Rightarrow> Throw (InvalidURL (destinationPath @ search (url req)) targetEndpoint)
                | Some targetUrl \<Rightarrow>
                    Next \<lparr> fwd_url = href targetUrl,
                           fwd_method = req_method req,
                           fwd_headers = headers req,
                           fwd_body = (if req_method req = ''POST''
                                       then map_option (JSON_stringify P) requestBody
                                       else None) \<rparr>))"

text \<open>Lines 18 to 126: everything before the outbound call.\<close>

definition build_forward :: "platform \<Rightarrow> kv_store \<Rightarrow> request \<Rightarrow> forward_request step" where
  "build_forward P kv req =
     (case extract_params P req of
        Throw e \<Rightarrow> Throw e
      | Return r \<Rightarrow> Return r
      | Next (customerId, warehouseId, requestBody) \<Rightarrow>
          if \<not> truthy customerId
          then Return (error_response P 400 ''Missing required parameter: customerId'')
          else
            (case lookup_target P kv customerId warehouseId of
               Inl e \<Rightarrow> Throw e
             | Inr found \<Rightarrow>
                 (let notFound =
                        (case no_routing_message P customerId warehouseId of
                           Inl e \<Rightarrow> Throw e
                         | Inr msg \<Rightarrow> Return (error_response P 404 msg))
                  in case found of
                       None \<Rightarrow> notFound
                     | Some targetKey \<Rightarrow>
                         if targetKey = [] then notFound
                         else forward_to P kv req requestBody targetKey)))"

text \<open>
  Lines 132 to 136, \<^verbatim>\<open>new Response(response.body, {status, statusText, headers})\<close>: the
  constructor throws a RangeError for a status outside 200 to 599 and otherwise copies
  the four parts. (Its other two checks do not fire on a response that \<^verbatim>\<open>fetch\<close> has
  produced: the status text of such a response is a reason phrase, and its body is
  \<^verbatim>\<open>null\<close> when its status allows no body.)
\<close>

definition new_Response :: "response \<Rightarrow> js_error + response" where
  "new_Response backend =
     (if 200 \<le> status backend \<and> status backend \<le> 599
      then Inr \<lparr> status = status backend, statusText = statusText backend,
                 resp_headers = resp_headers backend, resp_body = resp_body backend \<rparr>
      else Inl (StatusOutOfRange (status backend)))"

text \<open>
  The handler: the \<^verbatim>\<open>try\<close> block, the outbound call and the relay of lines 129 to 136,
  and the outermost \<^verbatim>\<open>catch\<close>.
\<close>

definition fetch :: "platform \<Rightarrow> kv_store \<Rightarrow> request \<Rightarrow> response" where
  "fetch P kv req =
     (case build_forward P kv req of
        Throw e \<Rightarrow> internal_error_response P e
      | Return r \<Rightarrow> r
      | Next forwardRequest \<Rightarrow>
          (case global_fetch P forwardRequest of
             Inl e \<Rightarrow> internal_error_response P e
           | Inr backend \<Rightarrow>
               (case new_Response backend of
                  Inl e \<Rightarrow> internal_error_response P e
                | Inr relayed \<Rightarrow> relayed)))"

section \<open>What the URL Standard says of the target URL\<close>









section \<open>A store without its empty values\<close>

text \<open>
  The store with every key that holds the empty string removed: what the store looks
  like if empty values are absent values.
\<close>

definition without_empty :: "kv_store \<Rightarrow> kv_store" where
  "without_empty kv = (\<lambda>k. if kv k = Some [] then None else kv k)"

section \<open>A concrete platform and store for the examples\<close>

text \<open>
  The theorems below hold for every platform. Their examples run on one concrete
  platform, in the manner of the repository's test suite: a serialiser for JSON values,
  a parser that reads back the serialisations of a fixed list of values and rejects
  every other text, URLs for an \<^verbatim>\<open>https\<close> text and for a reference that starts with a
  single slash against such a text (scheme and authority of the base, then the
  reference), the engine's error messages and a backend that answers 200 with the
  method and URL it was called with. On the inputs of the examples these agree with
  the JavaScript runtime.
\<close>

fun show_nat :: "nat \<Rightarrow> string" where
  "show_nat n =
     (if n < 10 then [''0123456789'' ! n]
      else show_nat (n div 10) @ [''0123456789'' ! (n mod 10)])"

declare show_nat.simps [simp del]

definition show_int :: "int \<Rightarrow> string" where
  "show_int n = (if n < 0 then ''-'' @ show_nat (nat (- n)) else show_nat (nat n))"

definition quote :: "string \<Rightarrow> string" where
  "quote s =
     [CHR 0x22] @
     concat (map (\<lambda>c. if c = CHR 0x22 \<or> c = CHR 0x5C then [CHR 0x5C, c] else [c]) s) @
     [CHR 0x22]"

fun sample_stringify :: "json \<Rightarrow> string" where
  "sample_stringify JNull = ''null''"
| "sample_stringify (JBool b) = (if b then ''true'' else ''false'')"
| "sample_stringify (JNum n) = show_int n"
| "sample_stringify (JStr s) = quote s"
| "sample_stringify (JArr xs) = ''['' @ join_comma (map sample_stringify xs) @ '']''"
| "sample_stringify (JObj ps) =
     ''{'' @ join_comma (map (\<lambda>(k, v). quote k @ '':'' @ sample_stringify v) ps) @ ''}''"

text \<open>The payloads of the test suite: a routed customer, and one without \<^verbatim>\<open>customerId\<close>.\<close>

definition nestle_data :: json where
  "nestle_data =
     JObj [(''customerId'', JStr ''NESTLE''), (''warehouseId'', JStr ''GDEC-01''),
           (''docNo'', JStr ''123'')]"

definition nestle_body :: json where
  "nestle_body = JObj [(''data'', JStr (sample_stringify nestle_data))]"

definition anonymous_data :: json where
  "anonymous_data = JObj [(''warehouseId'', JStr ''GDEC-01''), (''docNo'', JStr ''123'')]"

definition anonymous_body :: json where
  "anonymous_body = JObj [(''data'', JStr (sample_stringify anonymous_data))]"

definition sample_values :: "json list" where
  "sample_values =
     [JNull,
      JObj [(''foo'', JStr ''bar'')],
      JObj [(''data'', JStr [])],
      JObj [(''data'', JStr ''not valid json{'')],
      nestle_data, nestle_body, anonymous_data, anonymous_body]"

definition sample_parse :: "string \<Rightarrow> json option" where
  "sample_parse s = map_of (map (\<lambda>v. (sample_stringify v, v)) sample_values) s"

text \<open>
  The URL with a given origin and a given text of path and query: the path is the text
  up to the first question mark.
\<close>

definition sample_URL :: "string \<Rightarrow> string \<Rightarrow> URL" where
  "sample_URL org rest =
     \<lparr> href = org @ rest, protocol = ''https:'', origin = org,
       pathname = takeWhile (\<lambda>c. c \<noteq> CHR ''?'') rest,
       search = dropWhile (\<lambda>c. c \<noteq> CHR ''?'') rest,
       searchParams = [] \<rparr>"

text \<open>The authority of a text that starts with \<^verbatim>\<open>https://\<close>: what follows, up to a slash.\<close>

definition sample_authority :: "string \<Rightarrow> string" where
  "sample_authority s = takeWhile (\<lambda>c. c \<noteq> CHR ''/'') (drop 8 s)"

definition sample_new_URL :: "string \<Rightarrow> string option \<Rightarrow> URL option" where
  "sample_new_URL input base =
     (case base of
        None \<Rightarrow>
          if prefix ''https://'' input \<and> sample_authority input \<noteq> []
          then Some (sample_URL (''https://'' @ sample_authority input)
                       (if drop (8 + length (sample_authority input)) input = [] then ''/''
                        else drop (8 + length (sample_authority input)) input))
          else None
      | Some b \<Rightarrow>
          if prefix ''https://'' b \<and> sample_authority b \<noteq> [] \<and>
             prefix ''/'' input \<and> \<not> prefix ''//'' input
          then Some (sample_URL (''https://'' @ sample_authority b) input)
          else None)"

fun sample_error_message :: "js_error \<Rightarrow> string" where
  "sample_error_message (NullPropertyAccess name) =
     ''Cannot read properties of null (reading '' @ [CHR 0x27] @ name @ [CHR 0x27] @ '')''"
| "sample_error_message NotPrimitive = ''Cannot convert object to primitive value''"
| "sample_error_message (InvalidURL rel base) = ''Invalid URL''"
| "sample_error_message (StatusOutOfRange n) =
     ''Responses may only be constructed with status codes in the range 200 to 599, inclusive.''"
| "sample_error_message (FetchFailed msg) = msg"

definition sample_backend :: "forward_request \<Rightarrow> js_error + response" where
  "sample_backend r =
     Inr \<lparr> status = 200, statusText = ''OK'',
           resp_headers = [(''Content-Type'', ''text/plain'')],
           resp_body = fwd_method r @ '' '' @ fwd_url r \<rparr>"

definition sample_platform :: platform where
  "sample_platform =
     \<lparr> JSON_parse = sample_parse, JSON_stringify = sample_stringify,
       Number_toString = show_int, new_URL = sample_new_URL,
       error_message = sample_error_message, global_fetch = sample_backend \<rparr>"

text \<open>A backend that accepts a WebSocket upgrade, on the same platform.\<close>

definition upgrading_backend :: "forward_request \<Rightarrow> js_error + response" where
  "upgrading_backend r =
     Inr \<lparr> status = 101, statusText = ''Switching Protocols'',
           resp_headers = [(''Upgrade'', ''websocket'')], resp_body = [] \<rparr>"

definition upgrading_platform :: platform where
  "upgrading_platform = sample_platform \<lparr> global_fetch := upgrading_backend \<rparr>"

text \<open>The store as the test suite fills it.\<close>

definition sample_kv :: kv_store where
  "sample_kv =
     map_of [(''route:NESTLE:GDEC-01'', ''TARGET_A''),
             (''route:PEPSI:WAREHOUSE-02'', ''TARGET_B''),
             (''route:COCA_COLA'', ''TARGET_A''),
             (''endpoint:TARGET_A'', ''https://httpbin.dev''),
             (''endpoint:TARGET_B'', ''https://httpbin.dev''),
             (''path:TARGET_A:/api/inventory'', ''/post''),
             (''path:TARGET_B:/api/orders'', ''/post'')]"

text \<open>Requests to \<^verbatim>\<open>http://example.com\<close>, as the test suite sends them.\<close>

definition request_url :: "string \<Rightarrow> (string \<times> string) list \<Rightarrow> string \<Rightarrow> URL" where
  "request_url path params query =
     \<lparr> href = ''http://example.com'' @ path @ query, protocol = ''http:'',
       origin = ''http://example.com'', pathname = path, search = query,
       searchParams = params \<rparr>"

definition get_request :: "string \<Rightarrow> (string \<times> string) list \<Rightarrow> string \<Rightarrow> request" where
  "get_request path params query =
     \<lparr> req_method = ''GET'', url = request_url path params query, headers = [], body = [] \<rparr>"

definition post_request :: "string \<Rightarrow> string \<Rightarrow> request" where
  "post_request path text =
     \<lparr> req_method = ''POST'', url = request_url path [] [],
       headers = [(''Content-Type'', ''application/json'')], body = text \<rparr>"

definition delete_request :: "string \<Rightarrow> request" where
  "delete_request path =
     \<lparr> req_method = ''DELETE'', url = request_url path [] [], headers = [], body = [] \<rparr>"

text \<open>Variants of the store and the requests of the examples.\<close>

definition both_routes_kv :: kv_store where
  "both_routes_kv = sample_kv(''route:NESTLE'' \<mapsto> ''TARGET_B'')"

definition empty_route_kv :: kv_store where
  "empty_route_kv = sample_kv(''route:NESTLE:GDEC-01'' \<mapsto> [], ''route:NESTLE'' \<mapsto> ''TARGET_B'')"

definition empty_endpoint_kv :: kv_store where
  "empty_endpoint_kv = sample_kv(''endpoint:TARGET_A'' \<mapsto> [])"

definition empty_path_kv :: kv_store where
  "empty_path_kv = sample_kv(''path:TARGET_A:/api/inventory'' \<mapsto> [])"


definition pepsi_request :: request where
  "pepsi_request =
     get_request ''/get'' [(''customerId'', ''PEPSI''), (''warehouseId'', ''WAREHOUSE-02'')]
       ''?customerId=PEPSI&warehouseId=WAREHOUSE-02''"

definition inventory_request :: request where
  "inventory_request =
     get_request ''/api/inventory'' [(''customerId'', ''COCA_COLA'')] ''?customerId=COCA_COLA''"

definition orders_request :: request where
  "orders_request =
     get_request ''/api/orders'' [(''customerId'', ''COCA_COLA'')] ''?customerId=COCA_COLA''"

section \<open>The handler, block by block\<close>

lemma fetch_Return: "build_forward P kv req = Return r \<Longrightarrow> fetch P kv req = r"
  by (simp add: fetch_def)

lemma fetch_Throw:
  "build_forward P kv req = Throw e \<Longrightarrow> fetch P kv req = internal_error_response P e"
  by (simp add: fetch_def)

lemma fetch_Next:
  "build_forward P kv req = Next fwd \<Longrightarrow> global_fetch P fwd = Inr backend \<Longrightarrow>
   200 \<le> status backend \<Longrightarrow> status backend \<le> 599 \<Longrightarrow>
   fetch P kv req = backend"
  by (simp add: fetch_def new_Response_def)

lemma fetch_out_of_range:
  "build_forward P kv req = Next fwd \<Longrightarrow> global_fetch P fwd = Inr backend \<Longrightarrow>
   status backend < 200 \<or> 599 < status backend \<Longrightarrow>
   fetch P kv req = internal_error_response P (StatusOutOfRange (status backend))"
  by (auto simp add: fetch_def new_Response_def)

lemma build_forward_Return:
  "extract_params P req = Return r \<Longrightarrow> build_forward P kv req = Return r"
  by (simp add: build_forward_def)

lemma build_forward_Throw:
  "extract_params P req = Throw e \<Longrightarrow> build_forward P kv req = Throw e"
  by (simp add: build_forward_def)

lemma build_forward_missing:
  "extract_params P req = Next (customerId, warehouseId, requestBody) \<Longrightarrow>
   \<not> truthy customerId \<Longrightarrow>
   build_forward P kv req =
     Return (error_response P 400 ''Missing required parameter: customerId'')"
  by (simp add: build_forward_def)

lemma build_forward_resolved:
  "extract_params P req = Next (customerId, warehouseId, requestBody) \<Longrightarrow>
   truthy customerId \<Longrightarrow>
   lookup_target P kv customerId warehouseId = Inr (Some targetKey) \<Longrightarrow> targetKey \<noteq> [] \<Longrightarrow>
   build_forward P kv req = forward_to P kv req requestBody targetKey"
  by (simp add: build_forward_def)

lemma build_forward_conversion:
  "extract_params P req = Next (customerId, warehouseId, requestBody) \<Longrightarrow>
   truthy customerId \<Longrightarrow>
   lookup_target P kv customerId warehouseId = Inl e \<Longrightarrow>
   build_forward P kv req = Throw e"
  by (simp add: build_forward_def)


lemma forward_to_no_endpoint:
  "kv (''endpoint:'' @ targetKey) = None \<or> kv (''endpoint:'' @ targetKey) = Some [] \<Longrightarrow>
   forward_to P kv req requestBody targetKey =
     Return (error_response P 404 (''No endpoint found for target: '' @ targetKey))"
  by (auto simp add: forward_to_def Let_def)

lemma extract_params_GET:
  "req_method req = ''GET'' \<Longrightarrow>
   extract_params P req =
     Next (searchParams_get (searchParams (url req)) ''customerId'',
           searchParams_get (searchParams (url req)) ''warehouseId'', None)"
  by (simp add: extract_params_def)

lemma extract_params_POST:
  assumes "req_method req = ''POST''"
    and "JSON_parse P (body req) = Some (JObj ps)"
    and "map_of ps ''data'' = Some (JStr d)" and "d \<noteq> []"
    and "JSON_parse P d = Some (JObj qs)"
  shows "extract_params P req =
           Next (map_of qs ''customerId'', map_of qs ''warehouseId'', Some (JObj ps))"
  using assms by (simp add: extract_params_def parse_data_def)

lemma error_response_fields:
  "error_response P code msg =
     \<lparr> status = code, statusText = [],
       resp_headers = [(''Content-Type'', ''application/json'')],
       resp_body = JSON_stringify P (JObj [(''error'', JStr msg)]) \<rparr>"
  by (simp add: error_response_def)

lemma error_response_parts:
  "status (error_response P code msg) = code"
  "resp_headers (error_response P code msg) = [(''Content-Type'', ''application/json'')]"
  "resp_body (error_response P code msg) = JSON_stringify P (JObj [(''error'', JStr msg)])"
  by (simp_all add: error_response_def)

lemma internal_error_response_parts:
  "status (internal_error_response P e) = 500"
  "resp_headers (internal_error_response P e) = [(''Content-Type'', ''application/json'')]"
  "resp_body (internal_error_response P e) =
     JSON_stringify P
       (JObj [(''error'', JStr ''Internal server error''),
              (''message'', JStr (error_message P e))])"
  by (simp_all add: internal_error_response_def)

lemma lookup_target_specific:
  "truthy warehouseId \<Longrightarrow> ToString P customerId = Inr c \<Longrightarrow> ToString P warehouseId = Inr w \<Longrightarrow>
   kv (''route:'' @ c @ '':'' @ w) = Some t \<Longrightarrow> t \<noteq> [] \<Longrightarrow>
   lookup_target P kv customerId warehouseId = Inr (Some t)"
  by (simp add: lookup_target_def)

lemma lookup_target_fallback:
  "ToString P customerId = Inr c \<Longrightarrow>
   \<not> truthy warehouseId \<or>
   ToString P warehouseId = Inr w \<and>
   (kv (''route:'' @ c @ '':'' @ w) = None \<or> kv (''route:'' @ c @ '':'' @ w) = Some []) \<Longrightarrow>
   lookup_target P kv customerId warehouseId = Inr (kv (''route:'' @ c))"
  by (auto simp add: lookup_target_def)

lemma extract_params_cases [case_names go thrown bad unsupported]:
  obtains customerId warehouseId requestBody
      where "extract_params P req = Next (customerId, warehouseId, requestBody)"
    | "extract_params P req = Throw (NullPropertyAccess ''data'')"
    | msg where "extract_params P req = Return (error_response P 400 msg)"
        and "msg = ''Invalid or missing JSON body in request'' \<or>
             msg = ''Missing data field in request body'' \<or>
             msg = ''Invalid JSON in data field''"
    | "extract_params P req =
         Return (error_response P 405 (''Method '' @ req_method req @ '' not supported''))"
proof (cases "req_method req = ''POST''")
  case False
  show ?thesis
  proof (cases "req_method req = ''GET''")
    case True
    then show ?thesis
      using that(1) by (simp add: extract_params_def)
  next
    case other: False
    with False show ?thesis
      using that(4) by (simp add: extract_params_def)
  qed
next
  case post: True
  show ?thesis
  proof (cases "JSON_parse P (body req)")
    case None
    with post have "extract_params P req =
        Return (error_response P 400 ''Invalid or missing JSON body in request'')"
      by (simp add: extract_params_def)
    then show ?thesis
      by (rule that(3)) simp
  next
    case (Some requestBody)
    show ?thesis
    proof (cases "get_prop requestBody ''data''")
      case (Inl e)
      then have "e = NullPropertyAccess ''data''"
        by (cases requestBody) simp_all
      with post Some Inl have "extract_params P req = Throw (NullPropertyAccess ''data'')"
        by (simp add: extract_params_def)
      then show ?thesis
        by (rule that(2))
    next
      case (Inr d)
      show ?thesis
      proof (cases "truthy d")
        case False
        with post Some Inr have "extract_params P req =
            Return (error_response P 400 ''Missing data field in request body'')"
          by (simp add: extract_params_def)
        then show ?thesis
          by (rule that(3)) simp
      next
        case True
        show ?thesis
        proof (cases "parse_data P d")
          case None
          with post Some Inr True have "extract_params P req =
              Return (error_response P 400 ''Invalid JSON in data field'')"
            by (simp add: extract_params_def)
          then show ?thesis
            by (rule that(3)) simp
        next
          case (Some ids)
          with post \<open>JSON_parse P (body req) = Some requestBody\<close> Inr True
          have "extract_params P req = Next (fst ids, snd ids, Some requestBody)"
            by (simp add: extract_params_def split: prod.splits)
          then show ?thesis
            by (rule that(1))
        qed
      qed
    qed
  qed
qed

lemma forward_to_cases [case_names go thrown no_endpoint]:
  obtains fwd where "forward_to P kv req requestBody targetKey = Next fwd"
    | e where "forward_to P kv req requestBody targetKey = Throw e"
    | "forward_to P kv req requestBody targetKey =
         Return (error_response P 404 (''No endpoint found for target: '' @ targetKey))"
  by (cases "forward_to P kv req requestBody targetKey")
     (auto simp add: forward_to_def Let_def split: option.splits if_splits)

lemma build_forward_cases [case_names go thrown bad no_routing no_endpoint unsupported]:
  obtains fwd where "build_forward P kv req = Next fwd"
    | e where "build_forward P kv req = Throw e"
    | msg where "build_forward P kv req = Return (error_response P 400 msg)"
        and "msg = ''Invalid or missing JSON body in request'' \<or>
             msg = ''Missing data field in request body'' \<or>
             msg = ''Invalid JSON in data field'' \<or>
             msg = ''Missing required parameter: customerId''"
    | customerId warehouseId msg where
        "no_routing_message P customerId warehouseId = Inr msg"
        and "build_forward P kv req = Return (error_response P 404 msg)"
    | targetKey where
        "build_forward P kv req =
           Return (error_response P 404 (''No endpoint found for target: '' @ targetKey))"
    | "build_forward P kv req =
         Return (error_response P 405 (''Method '' @ req_method req @ '' not supported''))"
proof (cases rule: extract_params_cases [of P req])
  case thrown
  then have "build_forward P kv req = Throw (NullPropertyAccess ''data'')"
    by (rule build_forward_Throw)
  then show ?thesis by (rule that(2))
next
  case (bad msg)
  from bad(1) have "build_forward P kv req = Return (error_response P 400 msg)"
    by (rule build_forward_Return)
  moreover from bad(2) have
    "msg = ''Invalid or missing JSON body in request'' \<or>
     msg = ''Missing data field in request body'' \<or>
     msg = ''Invalid JSON in data field'' \<or>
     msg = ''Missing required parameter: customerId''"
    by (elim disjE) simp_all
  ultimately show ?thesis by (rule that(3))
next
  case unsupported
  then have "build_forward P kv req =
      Return (error_response P 405 (''Method '' @ req_method req @ '' not supported''))"
    by (rule build_forward_Return)
  then show ?thesis by (rule that(6))
next
  case (go c w b)
  show ?thesis
  proof (cases "truthy c")
    case False
    with go have "build_forward P kv req =
        Return (error_response P 400 ''Missing required parameter: customerId'')"
      by (rule build_forward_missing)
    then show ?thesis
      by (rule that(3)) simp
  next
    case True
    show ?thesis
    proof (cases "lookup_target P kv c w")
      case (Inl e)
      with go True have "build_forward P kv req = Throw e"
        by (rule build_forward_conversion)
      then show ?thesis by (rule that(2))
    next
      case (Inr found)
      show ?thesis
      proof (cases "str_truthy found")
        case False
        show ?thesis
        proof (cases "no_routing_message P c w")
          case (Inl e)
          with go True Inr False have "build_forward P kv req = Throw e"
            by (cases found) (simp_all add: build_forward_def)
          then show ?thesis by (rule that(2))
        next
          case msg: (Inr msg)
          with go True Inr False have "build_forward P kv req = Return (error_response P 404 msg)"
            by (cases found) (simp_all add: build_forward_def)
          with msg show ?thesis by (rule that(4))
        qed
      next
        case present: True
        then obtain t where "found = Some t" and "t \<noteq> []"
          by (cases found) simp_all
        with go True Inr have bf: "build_forward P kv req = forward_to P kv req b t"
          by (simp add: build_forward_resolved)
        show ?thesis
        proof (cases rule: forward_to_cases [of P kv req b t])
          case (go fwd)
          with bf show ?thesis by (simp add: that(1))
        next
          case (thrown e)
          with bf show ?thesis by (simp add: that(2))
        next
          case no_endpoint
          with bf show ?thesis by (simp add: that(5))
        qed
      qed
    qed
  qed
qed

section \<open>Paths and query strings in serialised form\<close>








section \<open>Facts about the example platform\<close>

lemma sample_simps:
  "JSON_parse sample_platform = sample_parse"
  "JSON_stringify sample_platform = sample_stringify"
  "new_URL sample_platform = sample_new_URL"
  "error_message sample_platform = sample_error_message"
  "global_fetch sample_platform = sample_backend"
  "JSON_parse upgrading_platform = sample_parse"
  "JSON_stringify upgrading_platform = sample_stringify"
  "new_URL upgrading_platform = sample_new_URL"
  "error_message upgrading_platform = sample_error_message"
  "global_fetch upgrading_platform = upgrading_backend"
  by (simp_all add: sample_platform_def upgrading_platform_def)

lemmas handler_defs =
  build_forward_def extract_params_def searchParams_get_def lookup_target_def
  forward_to_def destination_path_def no_routing_message_def Let_def

lemmas request_defs =
  get_request_def post_request_def delete_request_def request_url_def pepsi_request_def
  inventory_request_def orders_request_def


lemma parse_foo_bar:
  \<open>sample_parse ''{"foo":"bar"}'' = Some (JObj [(''foo'', JStr ''bar'')])\<close>
  by (simp add: sample_parse_def sample_values_def quote_def)

lemma parse_invalid_data:
  \<open>sample_parse ''{"data":"not valid json{"}'' = Some (JObj [(''data'', JStr ''not valid json{'')])\<close>
  by (simp add: sample_parse_def sample_values_def quote_def)

lemma parse_empty_data:
  \<open>sample_parse ''{"data":""}'' = Some (JObj [(''data'', JStr [])])\<close>
  by (simp add: sample_parse_def sample_values_def quote_def)

lemma parse_null: "sample_parse ''null'' = Some JNull"
  by (simp add: sample_parse_def sample_values_def)

lemma parse_rejects:
  "sample_parse [] = None" "sample_parse ''not valid json{'' = None"
  by (simp_all add: sample_parse_def sample_values_def nestle_data_def nestle_body_def
      anonymous_data_def anonymous_body_def quote_def)

lemma parse_anonymous_body:
  "sample_parse (sample_stringify anonymous_body) = Some anonymous_body"
  by (simp add: sample_parse_def sample_values_def nestle_data_def nestle_body_def
      anonymous_data_def anonymous_body_def quote_def)

lemma parse_anonymous_data:
  "sample_parse (sample_stringify anonymous_data) = Some anonymous_data"
  by (simp add: sample_parse_def sample_values_def nestle_data_def nestle_body_def
      anonymous_data_def anonymous_body_def quote_def)

lemma parse_nestle_body:
  "sample_parse (sample_stringify nestle_body) = Some nestle_body"
  by (simp add: sample_parse_def sample_values_def nestle_data_def nestle_body_def
      anonymous_data_def anonymous_body_def quote_def)

lemma parse_nestle_data:
  "sample_parse (sample_stringify nestle_data) = Some nestle_data"
  by (simp add: sample_parse_def sample_values_def nestle_data_def nestle_body_def
      anonymous_data_def anonymous_body_def quote_def)



lemma coca_cola_extract:
  "extract_params P (get_request path [(''customerId'', ''COCA_COLA'')] query) =
     Next (Some (JStr ''COCA_COLA''), Some JNull, None)"
  by (simp add: extract_params_def searchParams_get_def request_defs)



section \<open>Target resolution\<close>

text \<open>
  Claim C1, as the code has it. Let the string conversions of \<open>customerId\<close> and
  \<open>warehouseId\<close> in the template literals succeed, as they do for strings. For a truthy
  \<open>warehouseId\<close>, a non-empty value under \<^verbatim>\<open>route:{customerId}:{warehouseId}\<close> is the
  resolved target key, whatever the store holds under \<^verbatim>\<open>route:{customerId}\<close>. The
  customer-level value is the result exactly when the warehouse-specific lookup is
  skipped (\<open>warehouseId\<close> falsy) or gives nothing or the empty string. The resolved key
  is the one the handler goes on with.
\<close>

theorem C1_target_priority:
  assumes "ToString P customerId = Inr c" and "ToString P warehouseId = Inr w"
  shows "(truthy warehouseId \<and> kv (''route:'' @ c @ '':'' @ w) = Some t \<and> t \<noteq> []
            \<longrightarrow> lookup_target P kv customerId warehouseId = Inr (Some t))
       \<and> (\<not> truthy warehouseId \<or>
          kv (''route:'' @ c @ '':'' @ w) = None \<or> kv (''route:'' @ c @ '':'' @ w) = Some []
            \<longrightarrow> lookup_target P kv customerId warehouseId = Inr (kv (''route:'' @ c)))
       \<and> (extract_params P req = Next (customerId, warehouseId, requestBody) \<and>
          truthy customerId \<and> truthy warehouseId \<and>
          kv (''route:'' @ c @ '':'' @ w) = Some t \<and> t \<noteq> []
            \<longrightarrow> build_forward P kv req = forward_to P kv req requestBody t)"
proof (intro conjI impI)
  assume "truthy warehouseId \<and> kv (''route:'' @ c @ '':'' @ w) = Some t \<and> t \<noteq> []"
  with assms show "lookup_target P kv customerId warehouseId = Inr (Some t)"
    by (simp add: lookup_target_specific)
next
  assume "\<not> truthy warehouseId \<or>
    kv (''route:'' @ c @ '':'' @ w) = None \<or> kv (''route:'' @ c @ '':'' @ w) = Some []"
  with assms show "lookup_target P kv customerId warehouseId = Inr (kv (''route:'' @ c))"
    by (intro lookup_target_fallback [where w = w]) auto
next
  assume a: "extract_params P req = Next (customerId, warehouseId, requestBody) \<and>
    truthy customerId \<and> truthy warehouseId \<and>
    kv (''route:'' @ c @ '':'' @ w) = Some t \<and> t \<noteq> []"
  with assms have "lookup_target P kv customerId warehouseId = Inr (Some t)"
    by (simp add: lookup_target_specific)
  with a show "build_forward P kv req = forward_to P kv req requestBody t"
    by (simp add: build_forward_resolved)
qed

theorem C1_target_priority_witness:
  "lookup_target sample_platform both_routes_kv (Some (JStr ''NESTLE'')) (Some (JStr ''GDEC-01''))
     = Inr (Some ''TARGET_A'')
 \<and> lookup_target sample_platform both_routes_kv (Some (JStr ''NESTLE'')) (Some JNull)
     = Inr (Some ''TARGET_B'')"
proof -
  have c: "ToString sample_platform (Some (JStr ''NESTLE'')) = Inr ''NESTLE''"
    and w: "ToString sample_platform (Some (JStr ''GDEC-01'')) = Inr ''GDEC-01''"
    and n: "ToString sample_platform (Some JNull) = Inr ''null''"
    by simp_all
  show ?thesis
    using C1_target_priority [OF c w, of both_routes_kv "''TARGET_A''"]
      C1_target_priority [OF c n, of both_routes_kv]
    by (simp add: both_routes_kv_def sample_kv_def)
qed

text \<open>
  As first stated, with any stored value winning, the claim fails: the store can hold
  the empty string under the warehouse-specific key, and then the customer-level value
  is the target key.
\<close>

theorem C1_counterexample:
  "empty_route_kv ''route:NESTLE:GDEC-01'' = Some []
 \<and> empty_route_kv ''route:NESTLE'' = Some ''TARGET_B''
 \<and> lookup_target sample_platform empty_route_kv (Some (JStr ''NESTLE'')) (Some (JStr ''GDEC-01''))
     = Inr (Some ''TARGET_B'')"
  by (simp add: empty_route_kv_def lookup_target_def)

section \<open>The outbound URL\<close>







section \<open>Path resolution\<close>





section \<open>The relay of the backend response\<close>

text \<open>
  Claim C4, as the code has it. When the handler reaches the outbound call and the
  backend answers with a status from 200 to 599, the caller receives the backend's
  response: the same status code, status text, headers and body. For any other status
  the \<^verbatim>\<open>Response\<close> constructor throws, and the caller receives the 500 response.
\<close>

theorem C4_response_relay:
  assumes "build_forward P kv req = Next forwardRequest"
    and "global_fetch P forwardRequest = Inr backend"
  shows "(200 \<le> status backend \<and> status backend \<le> 599
            \<longrightarrow> fetch P kv req = backend
                \<and> status (fetch P kv req) = status backend
                \<and> statusText (fetch P kv req) = statusText backend
                \<and> resp_headers (fetch P kv req) = resp_headers backend
                \<and> resp_body (fetch P kv req) = resp_body backend)
       \<and> (status backend < 200 \<or> 599 < status backend
            \<longrightarrow> status (fetch P kv req) = 500
                \<and> resp_body (fetch P kv req) =
                    JSON_stringify P
                      (JObj [(''error'', JStr ''Internal server error''),
                             (''message'',
                              JStr (error_message P (StatusOutOfRange (status backend))))]))"
proof (intro conjI impI)
  assume "status backend < 200 \<or> 599 < status backend"
  then have r: "fetch P kv req = internal_error_response P (StatusOutOfRange (status backend))"
    by (rule fetch_out_of_range [OF assms])
  show "status (fetch P kv req) = 500"
    by (simp add: r internal_error_response_parts)
  show "resp_body (fetch P kv req) =
      JSON_stringify P
        (JObj [(''error'', JStr ''Internal server error''),
               (''message'', JStr (error_message P (StatusOutOfRange (status backend))))])"
    by (simp add: r internal_error_response_parts)
next
  assume "200 \<le> status backend \<and> status backend \<le> 599"
  then have r: "fetch P kv req = backend"
    by (intro fetch_Next [OF assms]) simp_all
  show "fetch P kv req = backend"
    by (rule r)
  show "status (fetch P kv req) = status backend"
    and "statusText (fetch P kv req) = statusText backend"
    and "resp_headers (fetch P kv req) = resp_headers backend"
    and "resp_body (fetch P kv req) = resp_body backend"
    by (simp_all add: r)
qed

lemma pepsi_forward:
  "build_forward P sample_kv pepsi_request =
     (case new_URL P ''/get?customerId=PEPSI&warehouseId=WAREHOUSE-02''
             (Some ''https://httpbin.dev'') of
        None \<Rightarrow>
          Throw (InvalidURL ''/get?customerId=PEPSI&warehouseId=WAREHOUSE-02''
                   ''https://httpbin.dev'')
      | Some targetUrl \<Rightarrow>
          Next \<lparr> fwd_url = href targetUrl, fwd_method = ''GET'', fwd_headers = [],
                 fwd_body = None \<rparr>)"
  by (simp add: handler_defs request_defs sample_kv_def split: option.split)

lemma pepsi_target_URL:
  "sample_new_URL ''/get?customerId=PEPSI&warehouseId=WAREHOUSE-02'' (Some ''https://httpbin.dev'') =
     Some (sample_URL ''https://httpbin.dev'' ''/get?customerId=PEPSI&warehouseId=WAREHOUSE-02'')"
  by (simp add: sample_new_URL_def sample_authority_def)

lemma nestle_extract:
  "extract_params sample_platform (post_request ''/api/inventory'' (sample_stringify nestle_body)) =
     Next (Some (JStr ''NESTLE''), Some (JStr ''GDEC-01''), Some nestle_body)"
proof -
  have "extract_params sample_platform (post_request ''/api/inventory'' (sample_stringify nestle_body)) =
     Next (map_of [(''customerId'', JStr ''NESTLE''), (''warehouseId'', JStr ''GDEC-01''),
                   (''docNo'', JStr ''123'')] ''customerId'',
           map_of [(''customerId'', JStr ''NESTLE''), (''warehouseId'', JStr ''GDEC-01''),
                   (''docNo'', JStr ''123'')] ''warehouseId'',
           Some (JObj [(''data'', JStr (sample_stringify nestle_data))]))"
  proof (rule extract_params_POST)
    show "req_method (post_request ''/api/inventory'' (sample_stringify nestle_body)) = ''POST''"
      by (simp add: post_request_def)
    show "JSON_parse sample_platform
            (body (post_request ''/api/inventory'' (sample_stringify nestle_body))) =
          Some (JObj [(''data'', JStr (sample_stringify nestle_data))])"
      using parse_nestle_body by (simp add: post_request_def sample_simps nestle_body_def)
    show "map_of [(''data'', JStr (sample_stringify nestle_data))] ''data'' =
          Some (JStr (sample_stringify nestle_data))"
      by simp
    show "sample_stringify nestle_data \<noteq> []"
      by (simp add: nestle_data_def)
    show "JSON_parse sample_platform (sample_stringify nestle_data) =
          Some (JObj [(''customerId'', JStr ''NESTLE''), (''warehouseId'', JStr ''GDEC-01''),
                      (''docNo'', JStr ''123'')])"
      using parse_nestle_data by (simp add: sample_simps nestle_data_def)
  qed
  then show ?thesis
    by (simp add: nestle_body_def)
qed

lemma nestle_forward:
  "build_forward sample_platform sample_kv
     (post_request ''/api/inventory'' (sample_stringify nestle_body)) =
   Next \<lparr> fwd_url = ''https://httpbin.dev/post'', fwd_method = ''POST'',
          fwd_headers = [(''Content-Type'', ''application/json'')],
          fwd_body = Some (sample_stringify nestle_body) \<rparr>"
proof -
  have t: "lookup_target sample_platform sample_kv (Some (JStr ''NESTLE'')) (Some (JStr ''GDEC-01''))
             = Inr (Some ''TARGET_A'')"
    by (simp add: lookup_target_def sample_kv_def)
  have "build_forward sample_platform sample_kv
          (post_request ''/api/inventory'' (sample_stringify nestle_body)) =
        forward_to sample_platform sample_kv
          (post_request ''/api/inventory'' (sample_stringify nestle_body)) (Some nestle_body)
          ''TARGET_A''"
    using nestle_extract _ t by (rule build_forward_resolved) simp_all
  also have "\<dots> = Next \<lparr> fwd_url = ''https://httpbin.dev/post'', fwd_method = ''POST'',
          fwd_headers = [(''Content-Type'', ''application/json'')],
          fwd_body = Some (sample_stringify nestle_body) \<rparr>"
    by (simp add: forward_to_def destination_path_def sample_kv_def post_request_def
        request_url_def sample_simps sample_new_URL_def sample_authority_def sample_URL_def)
  finally show ?thesis .
qed

theorem C4_response_relay_witness:
  "fetch sample_platform sample_kv pepsi_request =
     \<lparr> status = 200, statusText = ''OK'', resp_headers = [(''Content-Type'', ''text/plain'')],
       resp_body = ''GET https://httpbin.dev/get?customerId=PEPSI&warehouseId=WAREHOUSE-02'' \<rparr>
 \<and> fetch sample_platform sample_kv
     (post_request ''/api/inventory'' (sample_stringify nestle_body)) =
     \<lparr> status = 200, statusText = ''OK'', resp_headers = [(''Content-Type'', ''text/plain'')],
       resp_body = ''POST https://httpbin.dev/post'' \<rparr>
 \<and> status (fetch upgrading_platform sample_kv pepsi_request) = 500"
proof -
  have b: "build_forward sample_platform sample_kv pepsi_request =
     Next \<lparr> fwd_url = ''https://httpbin.dev/get?customerId=PEPSI&warehouseId=WAREHOUSE-02'',
            fwd_method = ''GET'', fwd_headers = [], fwd_body = None \<rparr>"
    by (simp add: pepsi_forward sample_simps pepsi_target_URL sample_URL_def)
  have b': "build_forward upgrading_platform sample_kv pepsi_request =
     Next \<lparr> fwd_url = ''https://httpbin.dev/get?customerId=PEPSI&warehouseId=WAREHOUSE-02'',
            fwd_method = ''GET'', fwd_headers = [], fwd_body = None \<rparr>"
    by (simp add: pepsi_forward sample_simps pepsi_target_URL sample_URL_def)
  have g: "global_fetch sample_platform
             \<lparr> fwd_url = ''https://httpbin.dev/get?customerId=PEPSI&warehouseId=WAREHOUSE-02'',
               fwd_method = ''GET'', fwd_headers = [], fwd_body = None \<rparr> =
           Inr \<lparr> status = 200, statusText = ''OK'',
                 resp_headers = [(''Content-Type'', ''text/plain'')],
                 resp_body = ''GET https://httpbin.dev/get?customerId=PEPSI&warehouseId=WAREHOUSE-02'' \<rparr>"
    by (simp add: sample_simps sample_backend_def)
  have g': "global_fetch sample_platform
             \<lparr> fwd_url = ''https://httpbin.dev/post'', fwd_method = ''POST'',
               fwd_headers = [(''Content-Type'', ''application/json'')],
               fwd_body = Some (sample_stringify nestle_body) \<rparr> =
           Inr \<lparr> status = 200, statusText = ''OK'',
                 resp_headers = [(''Content-Type'', ''text/plain'')],
                 resp_body = ''POST https://httpbin.dev/post'' \<rparr>"
    by (simp add: sample_simps sample_backend_def)
  have g'': "global_fetch upgrading_platform
             \<lparr> fwd_url = ''https://httpbin.dev/get?customerId=PEPSI&warehouseId=WAREHOUSE-02'',
               fwd_method = ''GET'', fwd_headers = [], fwd_body = None \<rparr> =
           Inr \<lparr> status = 101, statusText = ''Switching Protocols'',
                 resp_headers = [(''Upgrade'', ''websocket'')], resp_body = [] \<rparr>"
    by (simp add: sample_simps upgrading_backend_def)
  show ?thesis
    using C4_response_relay [OF b g] C4_response_relay [OF nestle_forward g']
      C4_response_relay [OF b' g'']
    by simp
qed

text \<open>
  As first stated, for every backend response, the claim fails: a backend that answers
  101 to a WebSocket upgrade does not get its response relayed, the caller receives 500.
\<close>

theorem C4_counterexample:
  "global_fetch upgrading_platform
     \<lparr> fwd_url = ''https://httpbin.dev/get?customerId=PEPSI&warehouseId=WAREHOUSE-02'',
       fwd_method = ''GET'', fwd_headers = [], fwd_body = None \<rparr> =
     Inr \<lparr> status = 101, statusText = ''Switching Protocols'',
           resp_headers = [(''Upgrade'', ''websocket'')], resp_body = [] \<rparr>
 \<and> build_forward upgrading_platform sample_kv pepsi_request =
     Next \<lparr> fwd_url = ''https://httpbin.dev/get?customerId=PEPSI&warehouseId=WAREHOUSE-02'',
            fwd_method = ''GET'', fwd_headers = [], fwd_body = None \<rparr>
 \<and> status (fetch upgrading_platform sample_kv pepsi_request) = 500
 \<and> statusText (fetch upgrading_platform sample_kv pepsi_request) = []
 \<and> resp_headers (fetch upgrading_platform sample_kv pepsi_request) =
     [(''Content-Type'', ''application/json'')]"
  by (simp add: fetch_def new_Response_def pepsi_forward sample_simps pepsi_target_URL
      sample_URL_def upgrading_backend_def internal_error_response_def)

section \<open>A missing customerId\<close>

text \<open>
  Claim C5, as the code has it. Whenever the parameters have been extracted and
  \<open>customerId\<close> is falsy (absent, \<^verbatim>\<open>null\<close> or empty), the response has status 400 and the
  body \<^verbatim>\<open>{"error": "Missing required parameter: customerId"}\<close>. The parameters are
  extracted from every GET request, and from a POST request whose body parses to a value
  other than \<^verbatim>\<open>null\<close>, with a truthy \<^verbatim>\<open>data\<close> whose text parses to a value other than
  \<^verbatim>\<open>null\<close>; such is a POST whose body is an object with a non-empty \<^verbatim>\<open>data\<close> string that
  parses to an object.
\<close>

theorem C5_missing_customerId:
  assumes "(extract_params P req = Next (customerId, warehouseId, requestBody) \<and>
            \<not> truthy customerId)
         \<or> (req_method req = ''GET'' \<and>
            (map_of (searchParams (url req)) ''customerId'' = None \<or>
             map_of (searchParams (url req)) ''customerId'' = Some []))
         \<or> (req_method req = ''POST'' \<and> JSON_parse P (body req) = Some (JObj ps) \<and>
            map_of ps ''data'' = Some (JStr d) \<and> d \<noteq> [] \<and> JSON_parse P d = Some (JObj qs) \<and>
            (map_of qs ''customerId'' = None \<or> map_of qs ''customerId'' = Some JNull \<or>
             map_of qs ''customerId'' = Some (JStr [])))"
  shows "status (fetch P kv req) = 400
       \<and> resp_headers (fetch P kv req) = [(''Content-Type'', ''application/json'')]
       \<and> resp_body (fetch P kv req) =
           JSON_stringify P (JObj [(''error'', JStr ''Missing required parameter: customerId'')])"
proof -
  have general: "fetch P kv req = error_response P 400 ''Missing required parameter: customerId''"
    if "extract_params P req = Next (c, w, b)" and "\<not> truthy c" for c w b
    using that by (intro fetch_Return build_forward_missing)
  have get: "fetch P kv req = error_response P 400 ''Missing required parameter: customerId''"
    if "req_method req = ''GET''"
      and "map_of (searchParams (url req)) ''customerId'' = None \<or>
           map_of (searchParams (url req)) ''customerId'' = Some []"
  proof -
    have "\<not> truthy (searchParams_get (searchParams (url req)) ''customerId'')"
      using that(2) by (auto simp add: searchParams_get_def)
    with extract_params_GET [OF that(1)] show ?thesis
      by (rule general)
  qed
  have post: "fetch P kv req = error_response P 400 ''Missing required parameter: customerId''"
    if "req_method req = ''POST''" and "JSON_parse P (body req) = Some (JObj ps)"
      and "map_of ps ''data'' = Some (JStr d)" and "d \<noteq> []"
      and "JSON_parse P d = Some (JObj qs)"
      and "map_of qs ''customerId'' = None \<or> map_of qs ''customerId'' = Some JNull \<or>
           map_of qs ''customerId'' = Some (JStr [])"
  proof -
    have "\<not> truthy (map_of qs ''customerId'')"
      using that(6) by auto
    with extract_params_POST [OF that(1-5)] show ?thesis
      by (rule general)
  qed
  from assms have "fetch P kv req = error_response P 400 ''Missing required parameter: customerId''"
  proof (elim disjE)
    assume "extract_params P req = Next (customerId, warehouseId, requestBody) \<and>
      \<not> truthy customerId"
    then show ?thesis
      by (intro general [of customerId warehouseId requestBody]) simp_all
  next
    assume "req_method req = ''GET'' \<and>
      (map_of (searchParams (url req)) ''customerId'' = None \<or>
       map_of (searchParams (url req)) ''customerId'' = Some [])"
    then show ?thesis
      by (intro get) simp_all
  next
    assume "req_method req = ''POST'' \<and> JSON_parse P (body req) = Some (JObj ps) \<and>
      map_of ps ''data'' = Some (JStr d) \<and> d \<noteq> [] \<and> JSON_parse P d = Some (JObj qs) \<and>
      (map_of qs ''customerId'' = None \<or> map_of qs ''customerId'' = Some JNull \<or>
       map_of qs ''customerId'' = Some (JStr []))"
    then show ?thesis
      by (intro post) simp_all
  qed
  then show ?thesis
    by (simp add: error_response_parts)
qed

theorem C5_missing_customerId_witness:
  \<open>status (fetch sample_platform sample_kv
     (get_request ''/api/inventory'' [(''warehouseId'', ''WAREHOUSE-02'')] ''?warehouseId=WAREHOUSE-02''))
     = 400
 \<and> resp_body (fetch sample_platform sample_kv
     (get_request ''/api/inventory'' [(''warehouseId'', ''WAREHOUSE-02'')] ''?warehouseId=WAREHOUSE-02''))
     = ''{"error":"Missing required parameter: customerId"}''
 \<and> status (fetch sample_platform sample_kv
     (post_request ''/api/test'' (sample_stringify anonymous_body))) = 400
 \<and> resp_body (fetch sample_platform sample_kv
     (post_request ''/api/test'' (sample_stringify anonymous_body)))
     = ''{"error":"Missing required parameter: customerId"}''\<close>
proof -
  let ?g = "get_request ''/api/inventory'' [(''warehouseId'', ''WAREHOUSE-02'')] ''?warehouseId=WAREHOUSE-02''"
  let ?p = "post_request ''/api/test'' (sample_stringify anonymous_body)"
  have g: "req_method ?g = ''GET'' \<and>
      (map_of (searchParams (url ?g)) ''customerId'' = None \<or>
       map_of (searchParams (url ?g)) ''customerId'' = Some [])"
    by (simp add: request_defs)
  have p: "req_method ?p = ''POST'' \<and>
      JSON_parse sample_platform (body ?p) =
        Some (JObj [(''data'', JStr (sample_stringify anonymous_data))]) \<and>
      map_of [(''data'', JStr (sample_stringify anonymous_data))] ''data'' =
        Some (JStr (sample_stringify anonymous_data)) \<and>
      sample_stringify anonymous_data \<noteq> [] \<and>
      JSON_parse sample_platform (sample_stringify anonymous_data) =
        Some (JObj [(''warehouseId'', JStr ''GDEC-01''), (''docNo'', JStr ''123'')]) \<and>
      (map_of [(''warehouseId'', JStr ''GDEC-01''), (''docNo'', JStr ''123'')] ''customerId'' = None \<or>
       map_of [(''warehouseId'', JStr ''GDEC-01''), (''docNo'', JStr ''123'')] ''customerId'' =
         Some JNull \<or>
       map_of [(''warehouseId'', JStr ''GDEC-01''), (''docNo'', JStr ''123'')] ''customerId'' =
         Some (JStr []))"
    using parse_anonymous_body parse_anonymous_data
    by (simp add: request_defs sample_simps anonymous_body_def) (simp add: anonymous_data_def)
  show ?thesis
    using C5_missing_customerId [OF disjI2 [OF disjI1 [OF g]], of sample_platform sample_kv]
      C5_missing_customerId [OF disjI2 [OF disjI2 [OF p]], of sample_kv]
    by (simp add: sample_simps quote_def)
qed

text \<open>
  The answer does depend on the method: a DELETE request without \<open>customerId\<close> is
  answered with 405, not 400.
\<close>

theorem C5_counterexample:
  \<open>searchParams_get (searchParams (url (delete_request ''/api/test''))) ''customerId'' = Some JNull
 \<and> status (fetch sample_platform sample_kv (delete_request ''/api/test'')) = 405
 \<and> status (fetch sample_platform sample_kv (delete_request ''/api/test'')) \<noteq> 400
 \<and> resp_body (fetch sample_platform sample_kv (delete_request ''/api/test'')) =
     ''{"error":"Method DELETE not supported"}''\<close>
  by (simp add: fetch_def handler_defs request_defs error_response_def sample_simps quote_def)

section \<open>Unsupported methods\<close>

text \<open>
  Claim C6. A request whose method is neither GET nor POST is answered with status 405
  and the body \<^verbatim>\<open>{"error": "Method <method> not supported"}\<close>, whose message contains the
  method's name and the words \<^verbatim>\<open>not supported\<close>. The store is not read: the response is
  the same for every store.
\<close>

theorem C6_unsupported_method:
  assumes "req_method req \<noteq> ''GET''" and "req_method req \<noteq> ''POST''"
  shows "status (fetch P kv req) = 405
       \<and> resp_headers (fetch P kv req) = [(''Content-Type'', ''application/json'')]
       \<and> resp_body (fetch P kv req) =
           JSON_stringify P
             (JObj [(''error'', JStr (''Method '' @ req_method req @ '' not supported''))])
       \<and> sublist (req_method req) (''Method '' @ req_method req @ '' not supported'')
       \<and> sublist ''not supported'' (''Method '' @ req_method req @ '' not supported'')
       \<and> fetch P kv' req = fetch P kv req"
proof -
  let ?r = "error_response P 405 (''Method '' @ req_method req @ '' not supported'')"
  have ext: "extract_params P req = Return ?r"
    using assms by (simp add: extract_params_def)
  have r: "fetch P kv req = ?r" and r': "fetch P kv' req = ?r"
    by (rule fetch_Return, rule build_forward_Return, rule ext)+
  have s1: "sublist (req_method req) (''Method '' @ req_method req @ '' not supported'')"
    by (rule sublist_appendI)
  have s2: "sublist ''not supported'' (''Method '' @ req_method req @ '' not supported'')"
    using sublist_appendI [of "''not supported''" "''Method '' @ req_method req @ '' ''" "[]"]
    by simp
  from s1 s2 show ?thesis
    by (simp add: r r' error_response_parts)
qed

theorem C6_unsupported_method_witness:
  \<open>status (fetch sample_platform sample_kv (delete_request ''/api/test'')) = 405
 \<and> resp_body (fetch sample_platform sample_kv (delete_request ''/api/test'')) =
     ''{"error":"Method DELETE not supported"}''
 \<and> fetch sample_platform Map.empty (delete_request ''/api/test'') =
     fetch sample_platform sample_kv (delete_request ''/api/test'')\<close>
proof -
  have m: "req_method (delete_request ''/api/test'') \<noteq> ''GET''"
    "req_method (delete_request ''/api/test'') \<noteq> ''POST''"
    by (simp_all add: request_defs)
  from C6_unsupported_method [OF m, of sample_platform sample_kv Map.empty] show ?thesis
    by (simp add: request_defs sample_simps quote_def)
qed

section \<open>Errors in the body of a POST\<close>

text \<open>
  Claim C7, as the code has it. For a POST whose body parses as JSON: when the parsed
  body is not \<^verbatim>\<open>null\<close> and has no \<^verbatim>\<open>data\<close> field, the response has status 400 and the body
  \<^verbatim>\<open>{"error": "Missing data field in request body"}\<close>; when the parsed body is an object
  whose \<^verbatim>\<open>data\<close> is a non-empty string that does not parse as JSON, the response has
  status 400 and the body \<^verbatim>\<open>{"error": "Invalid JSON in data field"}\<close>.
\<close>

theorem C7_post_body_errors:
  assumes "req_method req = ''POST''" and "JSON_parse P (body req) = Some requestBody"
  shows "(requestBody \<noteq> JNull \<and> (\<forall>ps. requestBody = JObj ps \<longrightarrow> map_of ps ''data'' = None)
            \<longrightarrow> status (fetch P kv req) = 400
                \<and> resp_headers (fetch P kv req) = [(''Content-Type'', ''application/json'')]
                \<and> resp_body (fetch P kv req) =
                    JSON_stringify P
                      (JObj [(''error'', JStr ''Missing data field in request body'')]))
       \<and> (\<forall>ps d. requestBody = JObj ps \<and> map_of ps ''data'' = Some (JStr d) \<and> d \<noteq> [] \<and>
                 JSON_parse P d = None
            \<longrightarrow> status (fetch P kv req) = 400
                \<and> resp_headers (fetch P kv req) = [(''Content-Type'', ''application/json'')]
                \<and> resp_body (fetch P kv req) =
                    JSON_stringify P (JObj [(''error'', JStr ''Invalid JSON in data field'')]))
       \<and> sublist ''Missing data field'' ''Missing data field in request body''"
proof -
  have missing: "fetch P kv req = error_response P 400 ''Missing data field in request body''"
    if "requestBody \<noteq> JNull \<and> (\<forall>ps. requestBody = JObj ps \<longrightarrow> map_of ps ''data'' = None)"
  proof -
    from that have "get_prop requestBody ''data'' = Inr None"
      by (cases requestBody) simp_all
    then have "extract_params P req =
            Return (error_response P 400 ''Missing data field in request body'')"
      using assms by (simp add: extract_params_def)
    then show ?thesis
      by (intro fetch_Return build_forward_Return)
  qed
  have invalid: "fetch P kv req = error_response P 400 ''Invalid JSON in data field''"
    if "requestBody = JObj ps \<and> map_of ps ''data'' = Some (JStr d) \<and> d \<noteq> [] \<and>
        JSON_parse P d = None" for ps d
  proof -
    have "extract_params P req = Return (error_response P 400 ''Invalid JSON in data field'')"
      using assms that by (simp add: extract_params_def parse_data_def)
    then show ?thesis
      by (intro fetch_Return build_forward_Return)
  qed
  have s: "sublist ''Missing data field'' ''Missing data field in request body''"
    by (simp add: sublist_Cons_right)
  show ?thesis
  proof (intro conjI allI impI)
    assume a: "requestBody \<noteq> JNull \<and>
      (\<forall>ps. requestBody = JObj ps \<longrightarrow> map_of ps ''data'' = None)"
    show "status (fetch P kv req) = 400"
      and "resp_headers (fetch P kv req) = [(''Content-Type'', ''application/json'')]"
      and "resp_body (fetch P kv req) =
        JSON_stringify P (JObj [(''error'', JStr ''Missing data field in request body'')])"
      by (simp_all add: missing [OF a] error_response_parts)
  next
    fix ps d
    assume a: "requestBody = JObj ps \<and> map_of ps ''data'' = Some (JStr d) \<and> d \<noteq> [] \<and>
      JSON_parse P d = None"
    show "status (fetch P kv req) = 400"
      and "resp_headers (fetch P kv req) = [(''Content-Type'', ''application/json'')]"
      and "resp_body (fetch P kv req) =
        JSON_stringify P (JObj [(''error'', JStr ''Invalid JSON in data field'')])"
      by (simp_all add: invalid [OF a] error_response_parts)
  next
    show "sublist ''Missing data field'' ''Missing data field in request body''"
      by (rule s)
  qed
qed

theorem C7_post_body_errors_witness:
  \<open>status (fetch sample_platform sample_kv (post_request ''/api/test'' ''{"foo":"bar"}'')) = 400
 \<and> resp_body (fetch sample_platform sample_kv (post_request ''/api/test'' ''{"foo":"bar"}'')) =
     ''{"error":"Missing data field in request body"}''
 \<and> status (fetch sample_platform sample_kv
     (post_request ''/api/test'' ''{"data":"not valid json{"}'')) = 400
 \<and> resp_body (fetch sample_platform sample_kv
     (post_request ''/api/test'' ''{"data":"not valid json{"}'')) =
     ''{"error":"Invalid JSON in data field"}''\<close>
proof -
  have m: "req_method (post_request ''/api/test'' t) = ''POST''" for t
    by (simp add: post_request_def)
  have b1: \<open>JSON_parse sample_platform (body (post_request ''/api/test'' ''{"foo":"bar"}'')) =
      Some (JObj [(''foo'', JStr ''bar'')])\<close>
    using parse_foo_bar by (simp add: post_request_def sample_simps)
  have b2: \<open>JSON_parse sample_platform
      (body (post_request ''/api/test'' ''{"data":"not valid json{"}'')) =
      Some (JObj [(''data'', JStr ''not valid json{'')])\<close>
    using parse_invalid_data by (simp add: post_request_def sample_simps)
  from C7_post_body_errors [OF m b1, of sample_kv] C7_post_body_errors [OF m b2, of sample_kv]
    parse_rejects
  show ?thesis
    by (simp add: sample_simps quote_def)
qed

text \<open>
  For an empty \<^verbatim>\<open>data\<close> string the second half of the claim as first stated fails:
  the empty string does not parse as JSON, and the answer is the message of a missing
  \<^verbatim>\<open>data\<close> field.
\<close>

theorem C7_counterexample:
  \<open>JSON_parse sample_platform (body (post_request ''/api/test'' ''{"data":""}'')) =
     Some (JObj [(''data'', JStr [])])
 \<and> JSON_parse sample_platform [] = None
 \<and> status (fetch sample_platform sample_kv (post_request ''/api/test'' ''{"data":""}'')) = 400
 \<and> resp_body (fetch sample_platform sample_kv (post_request ''/api/test'' ''{"data":""}'')) =
     ''{"error":"Missing data field in request body"}''
 \<and> \<not> sublist ''Invalid JSON in data field'' ''Missing data field in request body''\<close>
  using parse_empty_data parse_rejects
  by (simp add: fetch_def handler_defs post_request_def sample_simps sublist_Cons_right
      error_response_def quote_def)

section \<open>The shape of a failure response\<close>

text \<open>
  Claim C8, as the code has it. Every response is either the backend's, relayed, or a
  failure response with the header \<^verbatim>\<open>Content-Type: application/json\<close>. A classified
  failure has the body \<^verbatim>\<open>{"error": msg}\<close> and the status of its class: 400 for the four
  request errors, 404 for a missing route or endpoint, 405 for an unsupported method. An
  uncaught error has status 500 and a body with two fields, \<^verbatim>\<open>error\<close> holding
  \<^verbatim>\<open>Internal server error\<close> and \<^verbatim>\<open>message\<close> holding the message of what was thrown.
\<close>

theorem C8_failure_shape:
  "(\<exists>fwd backend. build_forward P kv req = Next fwd \<and> global_fetch P fwd = Inr backend \<and>
       fetch P kv req = backend)
 \<or> (\<exists>code msg.
       fetch P kv req =
         \<lparr> status = code, statusText = [],
           resp_headers = [(''Content-Type'', ''application/json'')],
           resp_body = JSON_stringify P (JObj [(''error'', JStr msg)]) \<rparr> \<and>
       (code = 400 \<and>
          (msg = ''Invalid or missing JSON body in request'' \<or>
           msg = ''Missing data field in request body'' \<or>
           msg = ''Invalid JSON in data field'' \<or>
           msg = ''Missing required parameter: customerId'') \<or>
        code = 404 \<and>
          ((\<exists>customerId warehouseId. no_routing_message P customerId warehouseId = Inr msg) \<or>
           (\<exists>targetKey. msg = ''No endpoint found for target: '' @ targetKey)) \<or>
        code = 405 \<and> msg = ''Method '' @ req_method req @ '' not supported''))
 \<or> (\<exists>e. fetch P kv req =
         \<lparr> status = 500, statusText = [],
           resp_headers = [(''Content-Type'', ''application/json'')],
           resp_body = JSON_stringify P
             (JObj [(''error'', JStr ''Internal server error''),
                    (''message'', JStr (error_message P e))]) \<rparr>)"
  (is "?relayed \<or> (\<exists>code msg. ?classified code msg) \<or> (\<exists>e. ?internal e)")
proof -
  have internal: "?internal e" if "fetch P kv req = internal_error_response P e" for e
    using that by (simp add: internal_error_response_def)
  have classified: "?classified code msg"
    if "build_forward P kv req = Return (error_response P code msg)"
      and "code = 400 \<and>
          (msg = ''Invalid or missing JSON body in request'' \<or>
           msg = ''Missing data field in request body'' \<or>
           msg = ''Invalid JSON in data field'' \<or>
           msg = ''Missing required parameter: customerId'') \<or>
        code = 404 \<and>
          ((\<exists>customerId warehouseId. no_routing_message P customerId warehouseId = Inr msg) \<or>
           (\<exists>targetKey. msg = ''No endpoint found for target: '' @ targetKey)) \<or>
        code = 405 \<and> msg = ''Method '' @ req_method req @ '' not supported''"
    for code msg
  proof
    show "fetch P kv req =
         \<lparr> status = code, statusText = [],
           resp_headers = [(''Content-Type'', ''application/json'')],
           resp_body = JSON_stringify P (JObj [(''error'', JStr msg)]) \<rparr>"
      using fetch_Return [OF that(1)] by (simp only: error_response_fields)
  qed (rule that(2))
  show ?thesis
  proof (cases rule: build_forward_cases [of P kv req])
    case (go fwd)
    show ?thesis
    proof (cases "global_fetch P fwd")
      case (Inl e)
      with go have "fetch P kv req = internal_error_response P e"
        by (simp add: fetch_def)
      then have "\<exists>e. ?internal e"
        by (intro exI internal)
      then show ?thesis
        by (rule disjI2 [OF disjI2])
    next
      case (Inr backend)
      show ?thesis
      proof (cases "200 \<le> status backend \<and> status backend \<le> 599")
        case True
        with go Inr have "fetch P kv req = backend"
          by (intro fetch_Next) simp_all
        with go Inr have ?relayed
          by (intro exI conjI)
        then show ?thesis
          by (rule disjI1)
      next
        case False
        with go Inr have
          "fetch P kv req = internal_error_response P (StatusOutOfRange (status backend))"
          by (intro fetch_out_of_range) auto
        then have "\<exists>e. ?internal e"
          by (intro exI internal)
        then show ?thesis
          by (rule disjI2 [OF disjI2])
      qed
    qed
  next
    case (thrown e)
    then have "fetch P kv req = internal_error_response P e"
      by (rule fetch_Throw)
    then have "\<exists>e. ?internal e"
      by (intro exI internal)
    then show ?thesis
      by (rule disjI2 [OF disjI2])
  next
    case (bad msg)
    then have "?classified 400 msg"
      by (intro classified) simp_all
    then have "\<exists>code msg. ?classified code msg"
      by (intro exI)
    then show ?thesis
      by (rule disjI2 [OF disjI1])
  next
    case (no_routing c w msg)
    from no_routing(1) have "\<exists>customerId warehouseId.
        no_routing_message P customerId warehouseId = Inr msg"
      by (intro exI)
    with no_routing(2) have "?classified 404 msg"
      by (intro classified) simp_all
    then have "\<exists>code msg. ?classified code msg"
      by (intro exI)
    then show ?thesis
      by (rule disjI2 [OF disjI1])
  next
    case (no_endpoint t)
    then have "?classified 404 (''No endpoint found for target: '' @ t)"
      by (intro classified) simp_all
    then have "\<exists>code msg. ?classified code msg"
      by (intro exI)
    then show ?thesis
      by (rule disjI2 [OF disjI1])
  next
    case unsupported
    then have "?classified 405 (''Method '' @ req_method req @ '' not supported'')"
      by (intro classified) simp_all
    then have "\<exists>code msg. ?classified code msg"
      by (intro exI)
    then show ?thesis
      by (rule disjI2 [OF disjI1])
  qed
qed

text \<open>
  The 500 response is not of the form \<^verbatim>\<open>{"error": msg}\<close>: it has a second field, and the
  message of the failure is in that field.
\<close>

text \<open>
  The 500 response is not of the form \<^verbatim>\<open>{"error": msg}\<close>: it has a second field, and the
  message of the failure is in that field.
\<close>

theorem C8_counterexample:
  \<open>status (fetch sample_platform sample_kv (post_request ''/api/test'' ''null'')) = 500
 \<and> resp_body (fetch sample_platform sample_kv (post_request ''/api/test'' ''null'')) =
     ''{"error":"Internal server error","message":"Cannot read properties of null (reading 'data')"}''
 \<and> resp_body (fetch sample_platform sample_kv (post_request ''/api/test'' ''null'')) \<noteq>
     JSON_stringify sample_platform (JObj [(''error'', JStr ''Internal server error'')])
 \<and> resp_body (fetch sample_platform sample_kv (post_request ''/api/test'' ''null'')) \<noteq>
     JSON_stringify sample_platform
       (JObj [(''error'', JStr ''Cannot read properties of null (reading 'data')'')])\<close>
proof -
  have "sample_parse ''null'' = Some JNull"
    by (simp add: sample_parse_def sample_values_def)
  then show ?thesis
    by (simp add: fetch_def handler_defs post_request_def sample_simps
        internal_error_response_def quote_def)
qed

section \<open>Empty values in the store\<close>

lemma lookup_target_without_empty:
  "lookup_target P (without_empty kv) customerId warehouseId =
     (case lookup_target P kv customerId warehouseId of
        Inl e \<Rightarrow> Inl e
      | Inr found \<Rightarrow> Inr (if found = Some [] then None else found))"
proof (cases "ToString P customerId")
  case (Inl e)
  then show ?thesis
    by (simp add: lookup_target_def)
next
  case c: (Inr c)
  show ?thesis
  proof (cases "truthy warehouseId")
    case False
    with c show ?thesis
      by (simp add: lookup_target_def without_empty_def)
  next
    case True
    show ?thesis
    proof (cases "ToString P warehouseId")
      case (Inl e)
      with c True show ?thesis
        by (simp add: lookup_target_def)
    next
      case (Inr w)
      with c True show ?thesis
        by (cases "kv (''route:'' @ c @ '':'' @ w)"; cases "kv (''route:'' @ c)")
           (simp_all add: lookup_target_def without_empty_def)
    qed
  qed
qed

lemma destination_path_without_empty:
  "destination_path (without_empty kv) targetKey sourcePath =
     destination_path kv targetKey sourcePath"
  by (simp add: destination_path_def without_empty_def split: option.splits)

lemma forward_to_without_empty:
  "forward_to P (without_empty kv) req requestBody targetKey =
     forward_to P kv req requestBody targetKey"
proof (cases "kv (''endpoint:'' @ targetKey)")
  case None
  then show ?thesis
    by (simp add: forward_to_def without_empty_def)
next
  case (Some targetEndpoint)
  then show ?thesis
    by (cases "targetEndpoint = []")
       (simp_all add: forward_to_def without_empty_def destination_path_without_empty
          [unfolded without_empty_def])
qed

lemma build_forward_without_empty:
  "build_forward P (without_empty kv) req = build_forward P kv req"
proof (cases "extract_params P req")
  case (Throw e)
  then show ?thesis by (simp add: build_forward_Throw)
next
  case (Return r)
  then show ?thesis by (simp add: build_forward_Return)
next
  case (Next params)
  obtain c w b where params: "params = (c, w, b)"
    by (cases params)
  show ?thesis
  proof (cases "lookup_target P kv c w")
    case (Inl e)
    with Next params show ?thesis
      by (simp add: build_forward_def lookup_target_without_empty)
  next
    case (Inr found)
    with Next params show ?thesis
      by (cases found)
         (simp_all add: build_forward_def lookup_target_without_empty forward_to_without_empty)
  qed
qed

text \<open>
  Claim C9. An empty string in the store behaves as an absent value at every lookup: an
  empty warehouse-specific route makes the customer-level route the result, an empty
  endpoint gives status 404 and the body
  \<^verbatim>\<open>{"error": "No endpoint found for target: <targetKey>"}\<close>, an empty path mapping leaves
  the source path in use; and the handler does the same on a store and on that store
  with its empty values removed.
\<close>

theorem C9_empty_values_absent:
  "(truthy warehouseId \<and> ToString P customerId = Inr c \<and> ToString P warehouseId = Inr w \<and>
    kv (''route:'' @ c @ '':'' @ w) = Some []
      \<longrightarrow> lookup_target P kv customerId warehouseId = Inr (kv (''route:'' @ c)))
 \<and> (extract_params P req = Next (customerId, warehouseId, requestBody) \<and> truthy customerId \<and>
    lookup_target P kv customerId warehouseId = Inr (Some targetKey) \<and> targetKey \<noteq> [] \<and>
    kv (''endpoint:'' @ targetKey) = Some []
      \<longrightarrow> status (fetch P kv req) = 404
          \<and> resp_headers (fetch P kv req) = [(''Content-Type'', ''application/json'')]
          \<and> resp_body (fetch P kv req) =
              JSON_stringify P
                (JObj [(''error'', JStr (''No endpoint found for target: '' @ targetKey))])
          \<and> sublist ''No endpoint found'' (''No endpoint found for target: '' @ targetKey))
 \<and> (kv (''path:'' @ targetKey @ '':'' @ sourcePath) = Some []
      \<longrightarrow> destination_path kv targetKey sourcePath = sourcePath)
 \<and> build_forward P (without_empty kv) req = build_forward P kv req
 \<and> fetch P (without_empty kv) req = fetch P kv req"
proof (intro conjI impI)
  assume "truthy warehouseId \<and> ToString P customerId = Inr c \<and>
    ToString P warehouseId = Inr w \<and> kv (''route:'' @ c @ '':'' @ w) = Some []"
  then show "lookup_target P kv customerId warehouseId = Inr (kv (''route:'' @ c))"
    by (simp add: lookup_target_def)
next
  assume a: "extract_params P req = Next (customerId, warehouseId, requestBody) \<and>
    truthy customerId \<and> lookup_target P kv customerId warehouseId = Inr (Some targetKey) \<and>
    targetKey \<noteq> [] \<and> kv (''endpoint:'' @ targetKey) = Some []"
  then have "build_forward P kv req = forward_to P kv req requestBody targetKey"
    by (simp add: build_forward_resolved)
  with a have "build_forward P kv req =
      Return (error_response P 404 (''No endpoint found for target: '' @ targetKey))"
    by (simp add: forward_to_no_endpoint)
  then have r: "fetch P kv req =
      error_response P 404 (''No endpoint found for target: '' @ targetKey)"
    by (rule fetch_Return)
  show "status (fetch P kv req) = 404"
    and "resp_headers (fetch P kv req) = [(''Content-Type'', ''application/json'')]"
    and "resp_body (fetch P kv req) =
      JSON_stringify P
        (JObj [(''error'', JStr (''No endpoint found for target: '' @ targetKey))])"
    by (simp_all add: r error_response_parts)
  show "sublist ''No endpoint found'' (''No endpoint found for target: '' @ targetKey)"
    using sublist_appendI [of "''No endpoint found''" "[]" "'' for target: '' @ targetKey"]
    by simp
next
  assume "kv (''path:'' @ targetKey @ '':'' @ sourcePath) = Some []"
  then show "destination_path kv targetKey sourcePath = sourcePath"
    by (simp add: destination_path_def)
next
  show "build_forward P (without_empty kv) req = build_forward P kv req"
    by (rule build_forward_without_empty)
next
  show "fetch P (without_empty kv) req = fetch P kv req"
    by (simp add: fetch_def build_forward_without_empty)
qed

theorem C9_empty_values_absent_witness:
  \<open>lookup_target sample_platform empty_route_kv (Some (JStr ''NESTLE'')) (Some (JStr ''GDEC-01''))
     = Inr (Some ''TARGET_B'')
 \<and> status (fetch sample_platform empty_endpoint_kv inventory_request) = 404
 \<and> resp_body (fetch sample_platform empty_endpoint_kv inventory_request) =
     ''{"error":"No endpoint found for target: TARGET_A"}''
 \<and> destination_path empty_path_kv ''TARGET_A'' ''/api/inventory'' = ''/api/inventory''\<close>
proof -
  have route: "truthy (Some (JStr ''GDEC-01'')) \<and>
      ToString sample_platform (Some (JStr ''NESTLE'')) = Inr ''NESTLE'' \<and>
      ToString sample_platform (Some (JStr ''GDEC-01'')) = Inr ''GDEC-01'' \<and>
      empty_route_kv (''route:'' @ ''NESTLE'' @ '':'' @ ''GDEC-01'') = Some []"
    by (simp add: empty_route_kv_def)
  have endpoint: "extract_params sample_platform inventory_request =
        Next (Some (JStr ''COCA_COLA''), Some JNull, None) \<and>
      truthy (Some (JStr ''COCA_COLA'')) \<and>
      lookup_target sample_platform empty_endpoint_kv (Some (JStr ''COCA_COLA'')) (Some JNull) =
        Inr (Some ''TARGET_A'') \<and>
      ''TARGET_A'' \<noteq> [] \<and> empty_endpoint_kv (''endpoint:'' @ ''TARGET_A'') = Some []"
    using coca_cola_extract [of sample_platform "''/api/inventory''" "''?customerId=COCA_COLA''"]
    by (simp add: inventory_request_def lookup_target_def empty_endpoint_kv_def sample_kv_def)
  have path: "empty_path_kv (''path:'' @ ''TARGET_A'' @ '':'' @ ''/api/inventory'') = Some []"
    by (simp add: empty_path_kv_def)
  note thm1 = C9_empty_values_absent
    [where P = sample_platform and kv = empty_route_kv and customerId = "Some (JStr ''NESTLE'')"
       and warehouseId = "Some (JStr ''GDEC-01'')" and c = "''NESTLE''" and w = "''GDEC-01''"]
  note thm2 = C9_empty_values_absent
    [where P = sample_platform and kv = empty_endpoint_kv and req = inventory_request
       and customerId = "Some (JStr ''COCA_COLA'')" and warehouseId = "Some JNull"
       and requestBody = None and targetKey = "''TARGET_A''"]
  note thm3 = C9_empty_values_absent
    [where kv = empty_path_kv and targetKey = "''TARGET_A''" and sourcePath = "''/api/inventory''"]
  have 1: "lookup_target sample_platform empty_route_kv (Some (JStr ''NESTLE''))
      (Some (JStr ''GDEC-01'')) = Inr (empty_route_kv (''route:'' @ ''NESTLE''))"
    using thm1 [THEN conjunct1, rule_format, OF route] .
  have 2: "status (fetch sample_platform empty_endpoint_kv inventory_request) = 404"
    "resp_body (fetch sample_platform empty_endpoint_kv inventory_request) =
      JSON_stringify sample_platform
        (JObj [(''error'', JStr (''No endpoint found for target: '' @ ''TARGET_A''))])"
    using thm2 [THEN conjunct2, THEN conjunct1, rule_format, OF endpoint] by simp_all
  have 3: "destination_path empty_path_kv ''TARGET_A'' ''/api/inventory'' = ''/api/inventory''"
    using thm3 [THEN conjunct2, THEN conjunct2, THEN conjunct1, rule_format, OF path] by simp
  from 1 2 3 show ?thesis
    by (simp add: empty_route_kv_def sample_simps quote_def)
qed

section \<open>A body that is the JSON literal null\<close>

text \<open>
  Claim C10. A POST whose body is the JSON literal \<^verbatim>\<open>null\<close> parses, the read of
  \<^verbatim>\<open>requestBody.data\<close> throws, and the outermost \<^verbatim>\<open>catch\<close> answers with status 500 and
  the error \<^verbatim>\<open>Internal server error\<close>: the request gets no 400 classification.
\<close>

theorem C10_null_body:
  assumes "req_method req = ''POST''" and "JSON_parse P (body req) = Some JNull"
  shows "fetch P kv req = internal_error_response P (NullPropertyAccess ''data'')
       \<and> status (fetch P kv req) = 500
       \<and> status (fetch P kv req) \<noteq> 400
       \<and> resp_body (fetch P kv req) =
           JSON_stringify P
             (JObj [(''error'', JStr ''Internal server error''),
                    (''message'', JStr (error_message P (NullPropertyAccess ''data'')))])"
proof -
  have "extract_params P req = Throw (NullPropertyAccess ''data'')"
    using assms by (simp add: extract_params_def)
  then have "fetch P kv req = internal_error_response P (NullPropertyAccess ''data'')"
    by (intro fetch_Throw build_forward_Throw)
  then show ?thesis
    by (simp add: internal_error_response_def)
qed

theorem C10_null_body_witness:
  \<open>fetch sample_platform sample_kv (post_request ''/api/test'' ''null'') =
     internal_error_response sample_platform (NullPropertyAccess ''data'')
   \<and> status (fetch sample_platform sample_kv (post_request ''/api/test'' ''null'')) = 500\<close>
proof -
  have m: "req_method (post_request ''/api/test'' ''null'') = ''POST''"
    by (simp add: post_request_def)
  have p: "JSON_parse sample_platform (body (post_request ''/api/test'' ''null'')) = Some JNull"
    by (simp add: post_request_def sample_simps sample_parse_def sample_values_def)
  from C10_null_body [OF m p, of sample_kv] show ?thesis
    by blast
qed

end
